theory Spec2Isabelle
  imports Main
begin

section \<open>The bucket splitter of sync\_diff\_inspector (splitter/bucket.go)\<close>

text \<open>
  A shallow embedding of \<^verbatim>\<open>BucketIterator\<close>: construction (\<^verbatim>\<open>init\<close>), the producer
  goroutine (\<^verbatim>\<open>produceChunks\<close>) and the consumer's \<^verbatim>\<open>Next\<close>.

  Conventions.
  \<^item> Go's \<^verbatim>\<open>int64\<close>, \<^verbatim>\<open>int\<close> and \<^verbatim>\<open>uint\<close> values are row counts, bucket positions and
    chunk numbers; they are modelled as \<open>int\<close> and \<open>nat\<close> (no count comes near \<open>2^63\<close>).
    Division is Go's, truncated towards zero (\<open>quo\<close>); a zero divisor is a run-time panic.
  \<^item> A slice is a list; where the code tests a slice against \<^verbatim>\<open>nil\<close> the value is a
    \<open>list option\<close> with \<open>None\<close> for \<^verbatim>\<open>nil\<close>. Indexing outside a slice is a panic.
  \<^item> A function that returns \<^verbatim>\<open>(v, err)\<close> returns \<open>error + v\<close>, \<open>Inl\<close> being the error;
    \<^verbatim>\<open>errors.Trace\<close> only annotates the error and is the identity here.
  \<^item> The packages \<^verbatim>\<open>dbutil\<close>, \<^verbatim>\<open>chunk\<close>, \<^verbatim>\<open>utils\<close> and the random splitter are not
    part of the two source files. The database calls are fields of the record \<open>Env\<close>;
    the three pure helpers of package \<^verbatim>\<open>chunk\<close> are modelled from the specification.
\<close>

subsection \<open>Errors, panics and integer division\<close>

datatype error = NotFound string | QueryFailure string

datatype panic = IndexOutOfRange | DivideByZero | CloseOfClosedChannel

text \<open>Go's \<^verbatim>\<open>a / b\<close> on integers for \<open>b \<noteq> 0\<close>: the quotient truncated towards zero.\<close>

definition quo :: "int \<Rightarrow> int \<Rightarrow> int" where
  "quo a b = sgn a * sgn b * (\<bar>a\<bar> div \<bar>b\<bar>)"

text \<open>Go's \<^verbatim>\<open>xs[i]\<close>: \<open>None\<close> stands for the index-out-of-range panic.\<close>

definition index_opt :: "'a list \<Rightarrow> int \<Rightarrow> 'a option" where
  "index_opt xs i = (if 0 \<le> i \<and> i < int (length xs) then Some (xs ! nat i) else None)"

text \<open>The elements of a slice that may be \<^verbatim>\<open>nil\<close>; \<^verbatim>\<open>len(nil)\<close> is 0.\<close>

definition slice :: "'a list option \<Rightarrow> 'a list" where
  "slice xs = (case xs of None \<Rightarrow> [] | Some ys \<Rightarrow> ys)"

subsection \<open>Data\<close>

text \<open>\<^verbatim>\<open>dbutil.Bucket\<close>: \<open>Count\<close> is the cumulative row count up to the upper bound.\<close>

record Bucket =
  Count :: int
  LowerBound :: string
  UpperBound :: string

text \<open>\<^verbatim>\<open>model.ColumnInfo\<close> (only \<^verbatim>\<open>Name.O\<close> is read) and \<^verbatim>\<open>model.IndexInfo\<close>
  (only \<^verbatim>\<open>ID\<close> and \<^verbatim>\<open>Name.O\<close> are read).\<close>

record ColumnInfo =
  ColumnName :: string

record IndexInfo =
  IndexInfoID :: int
  IndexName :: string

text \<open>\<^verbatim>\<open>chunk.Bound\<close> and \<^verbatim>\<open>chunk.Range\<close>, with the fields this file reads or writes.\<close>

record Bound =
  Column :: string
  Lower :: string
  Upper :: string
  HasLower :: bool
  HasUpper :: bool

record Range =
  ID :: int
  Bounds :: "Bound list"
  BucketID :: int

text \<open>\<^verbatim>\<open>RangeInfo\<close>, the checkpoint: \<^verbatim>\<open>GetChunk()\<close> returns \<open>ChunkRange\<close>.\<close>

record RangeInfo =
  ChunkRange :: Range
  IndexID :: int

definition GetChunk :: "RangeInfo \<Rightarrow> Range" where
  "GetChunk r = ChunkRange r"

subsection \<open>Helpers of package chunk\<close>

text \<open>Modelled from the spec: \<^verbatim>\<open>chunk.NewChunkRange\<close>, a range with no bound on any
  column (package \<^verbatim>\<open>chunk\<close> is not among the source files).\<close>

definition NewChunkRange :: Range where
  "NewChunkRange = \<lparr>ID = 0, Bounds = [], BucketID = 0\<rparr>"

text \<open>Modelled from the spec: \<^verbatim>\<open>chunk.Range.Update(column, lower, upper, updateLower,
  updateUpper)\<close>. A range holds, for each column, an optional lower and an optional upper
  value with a present/absent flag each; the update sets the sides it is asked to set on
  the column's bound and adds the bound when the column has none yet.\<close>

fun updateBounds :: "Bound list \<Rightarrow> string \<Rightarrow> string \<Rightarrow> string \<Rightarrow> bool \<Rightarrow> bool \<Rightarrow> Bound list" where
  "updateBounds [] column lower upper updateLower updateUpper =
     [\<lparr>Column = column, Lower = lower, Upper = upper,
       HasLower = updateLower, HasUpper = updateUpper\<rparr>]"
| "updateBounds (b # bs) column lower upper updateLower updateUpper =
     (if Column b = column then
        b\<lparr>Lower := (if updateLower then lower else Lower b),
          HasLower := (updateLower \<or> HasLower b),
          Upper := (if updateUpper then upper else Upper b),
          HasUpper := (updateUpper \<or> HasUpper b)\<rparr> # bs
      else b # updateBounds bs column lower upper updateLower updateUpper)"

definition Update :: "Range \<Rightarrow> string \<Rightarrow> string \<Rightarrow> string \<Rightarrow> bool \<Rightarrow> bool \<Rightarrow> Range" where
  "Update r column lower upper updateLower updateUpper =
     r\<lparr>Bounds := updateBounds (Bounds r) column lower upper updateLower updateUpper\<rparr>"

text \<open>Modelled from the spec: \<^verbatim>\<open>chunk.InitChunks(chunks, type, firstChunkID, bucketID,
  collation, limits)\<close> assigns a contiguous block of chunk IDs to the ranges, tags each with
  the bucket ID, and returns the next free chunk ID. The Go function writes through the
  pointers; here the tagged ranges are returned with the next ID.\<close>

fun InitChunks :: "Range list \<Rightarrow> int \<Rightarrow> int \<Rightarrow> Range list \<times> int" where
  "InitChunks [] firstChunkID bucketID = ([], firstChunkID)"
| "InitChunks (c # cs) firstChunkID bucketID =
     (c\<lparr>ID := firstChunkID, BucketID := bucketID\<rparr> # fst (InitChunks cs (firstChunkID + 1) bucketID),
      snd (InitChunks cs (firstChunkID + 1) bucketID))"

subsection \<open>External collaborators\<close>

text \<open>
  The calls that leave the file. \<open>GetBucketsInfo\<close>, \<open>FindAllIndex\<close> and
  \<open>GetColumnsFromIndex\<close> are already applied to the table (schema, name, metadata);
  \<open>GetRowCount\<close> and \<open>splitRangeByRandom\<close> take the range, from which the
  \<^verbatim>\<open>WHERE\<close> clause is computed. \<open>SplitThreshold\<close> is the package constant.
  \<open>GetBucketsInfo\<close> builds every bucket list by \<^verbatim>\<open>append\<close>, so a list found in the
  map is not \<^verbatim>\<open>nil\<close>.
\<close>

record Env =
  GetBucketsInfo :: "error + (string \<Rightarrow> Bucket list option)"
  FindAllIndex :: "IndexInfo option list"
  GetColumnsFromIndex :: "IndexInfo \<Rightarrow> ColumnInfo list"
  SplitThreshold :: int
  AnalyzeValuesFromBuckets :: "string \<Rightarrow> ColumnInfo list \<Rightarrow> error + string list"
  GetRowCount :: "Range \<Rightarrow> error + int"
  splitRangeByRandom :: "Range \<Rightarrow> int \<Rightarrow> error + Range list"

subsection \<open>The iterator\<close>

text \<open>A buffered channel of chunk batches: the queued messages (\<open>None\<close> is the
  \<^verbatim>\<open>nil\<close> batch) and whether it has been closed.\<close>

record Chan =
  queue :: "Range list option list"
  closed :: bool

record BucketIterator =
  indexColumns :: "ColumnInfo list option"
  buckets :: "Bucket list option"
  chunkSize :: int
  chunks :: "Range list option"
  nextChunk :: nat
  chunksCh :: Chan
  errCh :: "error option"
  indexID :: int

subsection \<open>init\<close>

text \<open>The loop over \<^verbatim>\<open>indices\<close> (lines 101--123).\<close>

fun selectIndex :: "(string \<Rightarrow> Bucket list option) \<Rightarrow> (IndexInfo \<Rightarrow> ColumnInfo list) \<Rightarrow>
    RangeInfo option \<Rightarrow> IndexInfo option list \<Rightarrow> BucketIterator \<Rightarrow> error + BucketIterator" where
  "selectIndex bm gc startRange [] s = Inr s"
| "selectIndex bm gc startRange (None # indices) s = selectIndex bm gc startRange indices s"
| "selectIndex bm gc startRange (Some index # indices) s =
     (if (case startRange of None \<Rightarrow> False | Some sr \<Rightarrow> IndexID sr \<noteq> IndexInfoID index)
      then selectIndex bm gc startRange indices s
      else case bm (IndexName index) of
             None \<Rightarrow> Inl (NotFound (''index '' @ IndexName index @ '' in buckets info''))
           | Some bucket \<Rightarrow>
               if length (gc index) = 0 then selectIndex bm gc startRange indices s
               else Inr (s\<lparr>buckets := Some bucket, indexColumns := Some (gc index),
                           indexID := IndexInfoID index\<rparr>))"

text \<open>The default chunk size (lines 131--139).\<close>

definition defaultChunkSize :: "int \<Rightarrow> Bucket list \<Rightarrow> int" where
  "defaultChunkSize threshold bs =
     (let cnt = foldl (\<lambda>cnt bucket. cnt + Count bucket) 0 bs;
          chunkSize' = quo cnt 10000
      in if chunkSize' < threshold then 2 * threshold else chunkSize')"

definition init :: "Env \<Rightarrow> BucketIterator \<Rightarrow> RangeInfo option \<Rightarrow> error + BucketIterator" where
  "init env s0 startRange =
     (case GetBucketsInfo env of
        Inl err \<Rightarrow> Inl err
      | Inr bm \<Rightarrow>
          (case selectIndex bm (GetColumnsFromIndex env) startRange (FindAllIndex env)
                  (s0\<lparr>nextChunk := 0\<rparr>) of
             Inl err \<Rightarrow> Inl err
           | Inr s \<Rightarrow>
               if buckets s = None \<or> indexColumns s = None
               then Inl (NotFound ''no index to split buckets'')
               else if chunkSize s \<le> 0
               then Inr (s\<lparr>chunkSize := defaultChunkSize (SplitThreshold env) (slice (buckets s))\<rparr>)
               else Inr s))"

text \<open>\<^verbatim>\<open>NewBucketIteratorWithCheckpoint\<close> up to the start of the goroutine: the fresh
  struct, then \<open>init\<close>; an error of \<open>init\<close> is returned and no iterator is.\<close>

definition newIterator :: "int \<Rightarrow> BucketIterator" where
  "newIterator requested =
     \<lparr>indexColumns = None, buckets = None, chunkSize = requested, chunks = None, nextChunk = 0,
      chunksCh = \<lparr>queue = [], closed = False\<rparr>, errCh = None, indexID = 0\<rparr>"

definition NewBucketIteratorWithCheckpoint :: "Env \<Rightarrow> int \<Rightarrow> RangeInfo option \<Rightarrow> error + BucketIterator" where
  "NewBucketIteratorWithCheckpoint env requested startRange =
     init env (newIterator requested) startRange"

subsection \<open>produceChunks\<close>

text \<open>How the goroutine ends: the \<^verbatim>\<open>nil\<close> batch was sent (\<open>Completed\<close>), an error was
  sent on \<^verbatim>\<open>errCh\<close> (\<open>Aborted\<close>), or it panicked. The batches sent on \<^verbatim>\<open>chunksCh\<close>
  before that are listed in order. (The channel holds 1024 batches; a full channel only
  delays the sender.)\<close>

datatype outcome = Completed | Aborted error | Panicked panic

text \<open>The local variables that live across iterations of the bucket loop.\<close>

record LoopState =
  chunkRange :: Range
  lowerValues :: "string list"
  latestCount :: int
  chunkID :: int

definition emit :: "'a \<Rightarrow> 'a list \<times> 'b \<Rightarrow> 'a list \<times> 'b" where
  "emit batch res = (batch # fst res, snd res)"

text \<open>Lines 170--172: the upper bounds of the checkpoint range.\<close>

fun setUppers :: "Range \<Rightarrow> ColumnInfo list \<Rightarrow> nat \<Rightarrow> string list \<Rightarrow> Range option" where
  "setUppers r [] i nextUpperValues = Some r"
| "setUppers r (column # columns) i nextUpperValues =
     (case index_opt nextUpperValues (int i) of
        None \<Rightarrow> None
      | Some v \<Rightarrow> setUppers (Update r (ColumnName column) [] v False True) columns (Suc i)
                   nextUpperValues)"

text \<open>Lines 215--224: the bounds of a merged range.\<close>

fun setBounds :: "Range \<Rightarrow> ColumnInfo list \<Rightarrow> nat \<Rightarrow> string list \<Rightarrow> string list \<Rightarrow> Range option" where
  "setBounds r [] j lowers uppers = Some r"
| "setBounds r (column # columns) j lowers uppers =
     (case (if length lowers > 0 then index_opt lowers (int j) else Some []) of
        None \<Rightarrow> None
      | Some lowerValue \<Rightarrow>
          (case (if length uppers > 0 then index_opt uppers (int j) else Some []) of
             None \<Rightarrow> None
           | Some upperValue \<Rightarrow>
               setBounds (Update r (ColumnName column) lowerValue upperValue
                            (length lowers > 0) (length uppers > 0))
                 columns (Suc j) lowers uppers))"

text \<open>Lines 247--249: the lower bounds of the last range.\<close>

fun setLowers :: "Range \<Rightarrow> ColumnInfo list \<Rightarrow> nat \<Rightarrow> string list \<Rightarrow> Range option" where
  "setLowers r [] j lowers = Some r"
| "setLowers r (column # columns) j lowers =
     (case index_opt lowers (int j) of
        None \<Rightarrow> None
      | Some v \<Rightarrow> setLowers (Update r (ColumnName column) v [] True False) columns (Suc j) lowers)"

text \<open>Lines 226--231: \<^verbatim>\<open>int((count + halfChunkSize) / chunkSize)\<close> with
  \<^verbatim>\<open>halfChunkSize := chunkSize / 2\<close>, for a chunk size that is not 0.\<close>

definition chunkCnt :: "int \<Rightarrow> int \<Rightarrow> int" where
  "chunkCnt count csize = quo (count + quo csize 2) csize"

text \<open>Lines 202--243: the loop over the buckets from position \<open>i\<close>. It returns the batches
  it sent and either the way the goroutine ended inside the loop or the state after the
  last bucket.\<close>

function bucketLoop :: "Env \<Rightarrow> int \<Rightarrow> Bucket list \<Rightarrow> ColumnInfo list \<Rightarrow> nat \<Rightarrow> LoopState \<Rightarrow>
    Range list list \<times> (outcome + LoopState)" where
  "bucketLoop env csize bs columns i st =
     (if i < length bs then
        (if Count (bs ! i) - latestCount st < csize
         then bucketLoop env csize bs columns (Suc i) st
         else case AnalyzeValuesFromBuckets env (UpperBound (bs ! i)) columns of
                Inl err \<Rightarrow> ([], Inl (Aborted err))
              | Inr upperValues \<Rightarrow>
                  (case setBounds (chunkRange st) columns 0 (lowerValues st) upperValues of
                     None \<Rightarrow> ([], Inl (Panicked IndexOutOfRange))
                   | Some r \<Rightarrow>
                       (if csize = 0 then ([], Inl (Panicked DivideByZero))
                        else (case splitRangeByRandom env r
                                     (chunkCnt (Count (bs ! i) - latestCount st) csize) of
                                Inl err \<Rightarrow> ([], Inl (Aborted err))
                              | Inr cs \<Rightarrow>
                                  emit (fst (InitChunks cs (chunkID st) (int i)))
                                    (bucketLoop env csize bs columns (Suc i)
                                       \<lparr>chunkRange = NewChunkRange, lowerValues = upperValues,
                                        latestCount = Count (bs ! i),
                                        chunkID = snd (InitChunks cs (chunkID st) (int i))\<rparr>)))))
      else ([], Inr st))"
  by pat_completeness auto
termination
  by (relation "measure (\<lambda>(env, csize, bs, columns, i, st). length bs - i)") auto

text \<open>Lines 245--256: the range after the last emitted upper bound, then the \<^verbatim>\<open>nil\<close>
  batch.\<close>

definition restChunk :: "Bucket list \<Rightarrow> ColumnInfo list \<Rightarrow> LoopState \<Rightarrow> Range list list \<times> outcome" where
  "restChunk bs columns st =
     (if length (lowerValues st) > 0 then
        (case setLowers (chunkRange st) columns 0 (lowerValues st) of
           None \<Rightarrow> ([], Panicked IndexOutOfRange)
         | Some r \<Rightarrow> ([fst (InitChunks [r] (chunkID st) (int (length bs)))], Completed))
      else ([], Completed))"

text \<open>Lines 192--198, after the checkpoint's batch: the loop's starting state.\<close>

definition seedLoop :: "Env \<Rightarrow> Bucket list \<Rightarrow> ColumnInfo list \<Rightarrow> Range \<Rightarrow> Bucket \<Rightarrow> int \<Rightarrow>
    Range list list \<times> (outcome + nat \<times> LoopState)" where
  "seedLoop env bs columns c bucket nextID =
     (case index_opt bs (BucketID c + 1) of
        None \<Rightarrow> ([], Inl (Panicked IndexOutOfRange))
      | Some nextBucket \<Rightarrow>
          (case AnalyzeValuesFromBuckets env (LowerBound nextBucket) columns of
             Inl err \<Rightarrow> ([], Inl (Aborted err))
           | Inr lowers \<Rightarrow>
               ([], Inr (nat (BucketID c + 1),
                         \<lparr>chunkRange = NewChunkRange, lowerValues = lowers,
                          latestCount = Count bucket, chunkID = nextID\<rparr>))))"

text \<open>Lines 165--167: the checkpoint's saved upper values become lower bounds.\<close>

definition checkpointLowers :: "Range \<Rightarrow> Range" where
  "checkpointLowers c =
     foldl (\<lambda>r bound. Update r (Column bound) (Upper bound) [] True False) NewChunkRange (Bounds c)"

text \<open>Lines 161--199: the range of the checkpoint. It returns the batch it sent, if any,
  and either the way the goroutine ended or \<^verbatim>\<open>beginBucket\<close> with the loop's state.
  The error of the first \<^verbatim>\<open>AnalyzeValuesFromBuckets\<close> (line 169) is not tested: on an
  error the function returns no values and line 171 indexes the \<^verbatim>\<open>nil\<close> slice.\<close>

definition resumeFromCheckpoint :: "Env \<Rightarrow> int \<Rightarrow> Bucket list \<Rightarrow> ColumnInfo list \<Rightarrow> RangeInfo \<Rightarrow>
    Range list list \<times> (outcome + nat \<times> LoopState)" where
  "resumeFromCheckpoint env csize bs columns startRange =
     (case index_opt bs (BucketID (GetChunk startRange)) of
        None \<Rightarrow> ([], Inl (Panicked IndexOutOfRange))
      | Some bucket \<Rightarrow>
          (case setUppers (checkpointLowers (GetChunk startRange)) columns 0
                  (case AnalyzeValuesFromBuckets env (UpperBound bucket) columns of
                     Inl err \<Rightarrow> [] | Inr nextUpperValues \<Rightarrow> nextUpperValues) of
             None \<Rightarrow> ([], Inl (Panicked IndexOutOfRange))
           | Some r \<Rightarrow>
               (case GetRowCount env r of
                  Inl err \<Rightarrow> ([], Inl (Aborted err))
                | Inr count \<Rightarrow>
                    if count > 0 then
                      (if csize = 0 then ([], Inl (Panicked DivideByZero))
                       else case splitRangeByRandom env r (chunkCnt count csize) of
                              Inl err \<Rightarrow> ([], Inl (Aborted err))
                            | Inr cs \<Rightarrow>
                                emit (fst (InitChunks cs 0 (BucketID (GetChunk startRange))))
                                  (seedLoop env bs columns (GetChunk startRange) bucket
                                     (snd (InitChunks cs 0 (BucketID (GetChunk startRange))))))
                    else seedLoop env bs columns (GetChunk startRange) bucket 0)))"

text \<open>The bucket loop followed by the last range.\<close>

definition loopAndRest :: "Env \<Rightarrow> int \<Rightarrow> Bucket list \<Rightarrow> ColumnInfo list \<Rightarrow> nat \<Rightarrow> LoopState \<Rightarrow>
    Range list list \<times> outcome" where
  "loopAndRest env csize bs columns beginBucket st =
     (case bucketLoop env csize bs columns beginBucket st of
        (sent, Inl ended) \<Rightarrow> (sent, ended)
      | (sent, Inr st') \<Rightarrow> (sent @ fst (restChunk bs columns st'), snd (restChunk bs columns st')))"

definition produceChunks :: "Env \<Rightarrow> BucketIterator \<Rightarrow> RangeInfo option \<Rightarrow> Range list list \<times> outcome" where
  "produceChunks env s startRange =
     (case startRange of
        None \<Rightarrow>
          loopAndRest env (chunkSize s) (slice (buckets s)) (slice (indexColumns s)) 0
            \<lparr>chunkRange = NewChunkRange, lowerValues = [], latestCount = 0, chunkID = 0\<rparr>
      | Some sr \<Rightarrow>
          (case resumeFromCheckpoint env (chunkSize s) (slice (buckets s)) (slice (indexColumns s)) sr of
             (sent, Inl ended) \<Rightarrow> (sent, ended)
           | (sent, Inr (beginBucket, st)) \<Rightarrow>
               (sent @ fst (loopAndRest env (chunkSize s) (slice (buckets s))
                              (slice (indexColumns s)) beginBucket st),
                snd (loopAndRest env (chunkSize s) (slice (buckets s))
                       (slice (indexColumns s)) beginBucket st))))"

subsection \<open>Next\<close>

text \<open>The channels after the goroutine has run to its end: the batches in order, then the
  \<^verbatim>\<open>nil\<close> batch if it completed; the error if it aborted.\<close>

definition afterProduction :: "Env \<Rightarrow> BucketIterator \<Rightarrow> RangeInfo option \<Rightarrow> BucketIterator" where
  "afterProduction env s startRange =
     s\<lparr>chunksCh := \<lparr>queue = map Some (fst (produceChunks env s startRange)) @
                             (if snd (produceChunks env s startRange) = Completed then [None] else []),
                    closed = False\<rparr>,
       errCh := (case snd (produceChunks env s startRange) of Aborted err \<Rightarrow> Some err | _ \<Rightarrow> None)\<rparr>"

text \<open>What a call of \<open>Next\<close> does: it returns a chunk, \<^verbatim>\<open>nil, nil\<close> (\<open>Finished\<close>),
  \<^verbatim>\<open>nil, err\<close> (\<open>Failed\<close>), panics, or waits for a channel (\<open>Blocked\<close>).\<close>

datatype NextResult = Chunk Range | Finished | Failed error | Crashed panic | Blocked

text \<open>Lines 87--89.\<close>

definition takeChunk :: "BucketIterator \<Rightarrow> NextResult \<times> BucketIterator" where
  "takeChunk s =
     (case index_opt (slice (chunks s)) (int (nextChunk s)) of
        None \<Rightarrow> (Crashed IndexOutOfRange, s)
      | Some c \<Rightarrow> (Chunk c, s\<lparr>nextChunk := nextChunk s + 1\<rparr>))"

text \<open>Lines 76--84: the batch \<open>msg\<close> has been received into \<^verbatim>\<open>s.chunks\<close> and \<open>ch\<close> is the
  channel after the receive. Closing a closed channel panics.\<close>

definition receiveBatch :: "BucketIterator \<Rightarrow> Range list option \<Rightarrow> Chan \<Rightarrow> NextResult \<times> BucketIterator" where
  "receiveBatch s msg ch =
     (case msg of
        None \<Rightarrow>
          if closed ch then (Crashed CloseOfClosedChannel, s\<lparr>chunks := None, chunksCh := ch\<rparr>)
          else (Finished, s\<lparr>chunks := None, chunksCh := ch\<lparr>closed := True\<rparr>\<rparr>)
      | Some batch \<Rightarrow> takeChunk (s\<lparr>chunks := Some batch, chunksCh := ch, nextChunk := 0\<rparr>))"

text \<open>A receive from \<^verbatim>\<open>chunksCh\<close>: the first queued batch, or \<^verbatim>\<open>nil\<close> from a closed and
  drained channel.\<close>

definition receiveFromChunksCh :: "BucketIterator \<Rightarrow> NextResult \<times> BucketIterator" where
  "receiveFromChunksCh s =
     (case queue (chunksCh s) of
        [] \<Rightarrow> receiveBatch s None (chunksCh s)
      | msg # msgs \<Rightarrow> receiveBatch s msg ((chunksCh s)\<lparr>queue := msgs\<rparr>))"

text \<open>Lines 71--90. A receive is ready on \<^verbatim>\<open>errCh\<close> when it holds an error, and on
  \<^verbatim>\<open>chunksCh\<close> when a batch is queued or the channel is closed. \<open>preferErr\<close> is the
  choice \<^verbatim>\<open>select\<close> makes when both are ready; when none is ready the call waits.\<close>

definition Next :: "bool \<Rightarrow> BucketIterator \<Rightarrow> NextResult \<times> BucketIterator" where
  "Next preferErr s =
     (if length (slice (chunks s)) \<le> nextChunk s then
        (case errCh s of
           Some err \<Rightarrow>
             if preferErr \<or> \<not> (queue (chunksCh s) \<noteq> [] \<or> closed (chunksCh s))
             then (Failed err, s\<lparr>errCh := None\<rparr>)
             else receiveFromChunksCh s
         | None \<Rightarrow>
             if queue (chunksCh s) \<noteq> [] \<or> closed (chunksCh s) then receiveFromChunksCh s
             else (Blocked, s))
      else takeChunk s)"

subsection \<open>Example inputs\<close>

definition exampleColumns :: "ColumnInfo list" where
  "exampleColumns = [\<lparr>ColumnName = ''id''\<rparr>]"

definition threeBuckets :: "Bucket list" where
  "threeBuckets =
     [\<lparr>Count = 100, LowerBound = ''(1)'', UpperBound = ''(100)''\<rparr>,
      \<lparr>Count = 250, LowerBound = ''(101)'', UpperBound = ''(250)''\<rparr>,
      \<lparr>Count = 400, LowerBound = ''(251)'', UpperBound = ''(400)''\<rparr>]"

definition smallBuckets :: "Bucket list" where
  "smallBuckets =
     [\<lparr>Count = 10, LowerBound = ''(1)'', UpperBound = ''(10)''\<rparr>,
      \<lparr>Count = 20, LowerBound = ''(11)'', UpperBound = ''(20)''\<rparr>]"

text \<open>A table with statistics for the indexes \<open>PRIMARY\<close> and \<open>empty\<close> (the latter with no
  usable column), a decoder that fails on the bound \<open>(?)\<close>, a row count of \<open>rows\<close> for
  every range, and a splitter that returns \<open>max n 1\<close> ranges.\<close>

definition exampleEnv :: "int \<Rightarrow> Env" where
  "exampleEnv rows =
     \<lparr>GetBucketsInfo =
        Inr (\<lambda>name. if name = ''PRIMARY'' \<or> name = ''empty'' then Some threeBuckets else None),
      FindAllIndex = [Some \<lparr>IndexInfoID = 1, IndexName = ''PRIMARY''\<rparr>],
      GetColumnsFromIndex = (\<lambda>index. if IndexName index = ''empty'' then [] else exampleColumns),
      SplitThreshold = 1000,
      AnalyzeValuesFromBuckets = (\<lambda>encoded columns.
         if encoded = ''(?)'' then Inl (QueryFailure ''analyze value (?) failed'')
         else Inr (replicate (length columns) encoded)),
      GetRowCount = (\<lambda>r. Inr rows),
      splitRangeByRandom = (\<lambda>r n. Inr (replicate (nat (max n 1)) r))\<rparr>"

definition exampleIterator :: "int \<Rightarrow> Bucket list \<Rightarrow> BucketIterator" where
  "exampleIterator csize bs =
     (newIterator csize)\<lparr>buckets := Some bs, indexColumns := Some exampleColumns, indexID := 1\<rparr>"

definition brokenBuckets :: "Bucket list" where
  "brokenBuckets =
     [\<lparr>Count = 100, LowerBound = ''(1)'', UpperBound = ''(?)''\<rparr>,
      \<lparr>Count = 250, LowerBound = ''(101)'', UpperBound = ''(250)''\<rparr>]"

definition exampleCheckpoint :: "int \<Rightarrow> RangeInfo" where
  "exampleCheckpoint bucket =
     \<lparr>ChunkRange = \<lparr>ID = 0,
        Bounds = [\<lparr>Column = ''id'', Lower = ''(1)'', Upper = ''(50)'', HasLower = True, HasUpper = True\<rparr>],
        BucketID = bucket\<rparr>,
      IndexID = 1\<rparr>"

text \<open>Statistics that hold the given buckets for every index.\<close>

definition oneBucket :: "int \<Rightarrow> Bucket list" where
  "oneBucket rows = [\<lparr>Count = rows, LowerBound = ''(1)'', UpperBound = ''(9)''\<rparr>]"

definition statsEnv :: "Bucket list \<Rightarrow> Env" where
  "statsEnv bs = (exampleEnv 0)\<lparr>GetBucketsInfo := Inr (\<lambda>name. Some bs)\<rparr>"

section \<open>Properties\<close>

subsection \<open>Unfolding the loop, and Go's division on counts\<close>

declare bucketLoop.simps [simp del]

lemma quo_nonneg: "0 \<le> a \<Longrightarrow> 0 < b \<Longrightarrow> quo a b = a div b"
  by (cases "a = 0") (simp_all add: quo_def)




lemma bucketLoop_emit:
  assumes "i < length bs" "csize \<le> Count (bs ! i) - latestCount st" "csize \<noteq> 0"
    "AnalyzeValuesFromBuckets env (UpperBound (bs ! i)) columns = Inr uv"
    "setBounds (chunkRange st) columns 0 (lowerValues st) uv = Some r"
  shows "bucketLoop env csize bs columns i st =
     (case splitRangeByRandom env r (chunkCnt (Count (bs ! i) - latestCount st) csize) of
        Inl err \<Rightarrow> ([], Inl (Aborted err))
      | Inr cs \<Rightarrow> emit (fst (InitChunks cs (chunkID st) (int i)))
           (bucketLoop env csize bs columns (Suc i)
              \<lparr>chunkRange = NewChunkRange, lowerValues = uv, latestCount = Count (bs ! i),
               chunkID = snd (InitChunks cs (chunkID st) (int i))\<rparr>))"
  using assms by (subst bucketLoop.simps) simp

lemma bucketLoop_skip:
  assumes "i < length bs" "Count (bs ! i) - latestCount st < csize"
  shows "bucketLoop env csize bs columns i st = bucketLoop env csize bs columns (Suc i) st"
  using assms by (subst bucketLoop.simps) simp

lemma bucketLoop_done:
  assumes "length bs \<le> i"
  shows "bucketLoop env csize bs columns i st = ([], Inr st)"
  using assms by (subst bucketLoop.simps) simp

lemma bucketLoop_all_below:
  assumes "\<forall>b \<in> set bs. Count b - latestCount st < csize"
  shows "bucketLoop env csize bs columns i st = ([], Inr st)"
proof (induction "length bs - i" arbitrary: i)
  case 0
  then show ?case by (simp add: bucketLoop_done)
next
  case (Suc n)
  then have "i < length bs" by simp
  moreover from this assms have "Count (bs ! i) - latestCount st < csize" by simp
  ultimately have "bucketLoop env csize bs columns i st = bucketLoop env csize bs columns (Suc i) st"
    by (rule bucketLoop_skip)
  also have "\<dots> = ([], Inr st)"
    using Suc by simp
  finally show ?case .
qed

lemma setBounds_Some:
  assumes "lowers = [] \<or> j + length columns \<le> length lowers"
    and "uppers = [] \<or> j + length columns \<le> length uppers"
  shows "\<exists>r'. setBounds r columns j lowers uppers = Some r'"
  using assms
proof (induction columns arbitrary: r j)
  case Nil
  then show ?case by simp
next
  case (Cons column columns)
  then show ?case
    by (auto simp: index_opt_def)
qed

lemma setLowers_Some:
  assumes "j + length columns \<le> length lowers"
  shows "\<exists>r'. setLowers r columns j lowers = Some r'"
  using assms
proof (induction columns arbitrary: r j)
  case Nil
  then show ?case by simp
next
  case (Cons column columns)
  then show ?case
    by (auto simp: index_opt_def)
qed

lemma InitChunks_next: "snd (InitChunks cs k b) = k + int (length cs)"
  by (induction cs arbitrary: k) simp_all


lemma InitChunks_tags:
  "map (\<lambda>r. (ID r, BucketID r)) (fst (InitChunks cs k b)) = map (\<lambda>i. (k + int i, b)) [0..<length cs]"
proof (induction cs arbitrary: k)
  case Nil
  then show ?case by simp
next
  case (Cons c cs)
  have "map (\<lambda>i. (k + int i, b)) [0..<length (c # cs)]
      = (k, b) # map (\<lambda>i. (k + int i, b)) (map Suc [0..<length cs])"
    by (simp add: upt_conv_Cons map_Suc_upt del: upt_Suc)
  also have "\<dots> = (k, b) # map (\<lambda>i. (k + 1 + int i, b)) [0..<length cs]"
    by (simp add: comp_def add.assoc)
  finally show ?case
    using Cons.IH [of "k + 1"] by simp
qed

text \<open>One iteration that emits, with a decoder and a splitter that behave.\<close>

lemma bucketLoop_emit_step:
  assumes i: "i < length bs" and reach: "csize \<le> Count (bs ! i) - latestCount st" and pos: "0 < csize"
    and dec: "\<exists>vs. AnalyzeValuesFromBuckets env (UpperBound (bs ! i)) columns = Inr vs
                \<and> length vs = length columns"
    and split: "\<forall>r n. \<exists>cs. splitRangeByRandom env r n = Inr cs \<and> length cs = nat (max n 1)"
    and lowers: "lowerValues st = [] \<or> length (lowerValues st) = length columns"
  shows "\<exists>cs uv. length cs = nat (max (chunkCnt (Count (bs ! i) - latestCount st) csize) 1)
      \<and> length uv = length columns
      \<and> bucketLoop env csize bs columns i st =
          emit (fst (InitChunks cs (chunkID st) (int i)))
            (bucketLoop env csize bs columns (Suc i)
               \<lparr>chunkRange = NewChunkRange, lowerValues = uv, latestCount = Count (bs ! i),
                chunkID = chunkID st + int (length cs)\<rparr>)"
proof -
  from dec obtain uv where uv: "AnalyzeValuesFromBuckets env (UpperBound (bs ! i)) columns = Inr uv"
    and len: "length uv = length columns" by blast
  from lowers len obtain r where r: "setBounds (chunkRange st) columns 0 (lowerValues st) uv = Some r"
    using setBounds_Some [of "lowerValues st" 0 columns uv "chunkRange st"] by auto
  from split obtain cs where cs: "splitRangeByRandom env r (chunkCnt (Count (bs ! i) - latestCount st) csize) = Inr cs"
    and n: "length cs = nat (max (chunkCnt (Count (bs ! i) - latestCount st) csize) 1)" by blast
  from pos have "csize \<noteq> 0" by simp
  from bucketLoop_emit [OF i reach this uv r] cs
  have "bucketLoop env csize bs columns i st =
          emit (fst (InitChunks cs (chunkID st) (int i)))
            (bucketLoop env csize bs columns (Suc i)
               \<lparr>chunkRange = NewChunkRange, lowerValues = uv, latestCount = Count (bs ! i),
                chunkID = chunkID st + int (length cs)\<rparr>)"
    by (simp add: InitChunks_next)
  with n len show ?thesis by blast
qed

lemma selectIndex_passed_over:
  assumes "\<forall>x \<in> set skipped. (case x of None \<Rightarrow> True | Some index \<Rightarrow>
             (\<exists>sr. startRange = Some sr \<and> IndexID sr \<noteq> IndexInfoID index)
             \<or> (bm (IndexName index) \<noteq> None \<and> gc index = []))"
  shows "selectIndex bm gc startRange (skipped @ rest) s = selectIndex bm gc startRange rest s"
  using assms
proof (induction skipped)
  case Nil
  then show ?case by simp
next
  case (Cons x skipped)
  then show ?case
    by (cases x) (auto split: option.splits)
qed

lemma selectIndex_chunkSize:
  "selectIndex bm gc startRange indices s = Inr s' \<Longrightarrow> chunkSize s' = chunkSize s"
  by (induction bm gc startRange indices s rule: selectIndex.induct)
     (auto split: if_splits option.splits)

lemma foldl_Count: "foldl (\<lambda>cnt bucket. cnt + Count bucket) a bs = a + sum_list (map Count bs)"
  by (induction bs arbitrary: a) simp_all

subsection \<open>Bounds written by the loops over the index columns\<close>










subsection \<open>Ways out of the checkpoint block\<close>

lemma resume_continues:
  assumes "snd (resumeFromCheckpoint env csize bs columns sr) = Inr x"
  shows "index_opt bs (BucketID (GetChunk sr)) \<noteq> None
       \<and> index_opt bs (BucketID (GetChunk sr) + 1) \<noteq> None"
  using assms
  by (auto simp: resumeFromCheckpoint_def seedLoop_def emit_def
      split: option.splits sum.splits if_splits)

lemma resume_never_completes:
  "snd (resumeFromCheckpoint env csize bs columns sr) \<noteq> Inl Completed"
  by (auto simp: resumeFromCheckpoint_def seedLoop_def emit_def
      split: option.splits sum.splits if_splits)

subsection \<open>Coverage of the key space\<close>

text \<open>
  Claim C1 (the chunks of a run without checkpoint tile the key space, also when every
  bucket's cumulative count stays below the chunk size). The code does not do this: when no
  bucket reaches the chunk size the loop sends nothing, \<^verbatim>\<open>lowerValues\<close> is still empty and
  the guard of line 246 skips the last range too. The run completes having sent no chunk at
  all, so no key of the table is covered.
\<close>

theorem small_table_emits_no_chunk:
  assumes "\<forall>b \<in> set (slice (buckets s)). Count b < chunkSize s"
  shows "produceChunks env s None = ([], Completed)"
  using assms
  by (simp add: produceChunks_def loopAndRest_def bucketLoop_all_below restChunk_def)

theorem small_table_emits_no_chunk_witness:
  "list_all (\<lambda>b. Count b < chunkSize (exampleIterator 100 smallBuckets))
     (slice (buckets (exampleIterator 100 smallBuckets)))
   \<and> produceChunks (exampleEnv 0) (exampleIterator 100 smallBuckets) None = ([], Completed)"
  using small_table_emits_no_chunk [of "exampleIterator 100 smallBuckets" "exampleEnv 0"]
  by (simp add: exampleIterator_def smallBuckets_def newIterator_def slice_def)

subsection \<open>The number of sub-chunks\<close>



subsection \<open>Errors of the decoder\<close>

text \<open>
  Claim C7 (every failed decode of a bucket bound aborts production with that error on the
  error channel). The decodes of lines 194 and 209 do; the decode of the checkpoint
  bucket's upper bound at line 169 does not: its error is never tested, the values are
  \<^verbatim>\<open>nil\<close>, and line 171 indexes them. With at least one index column (which \<open>init\<close>
  guarantees) the goroutine panics and nothing arrives on the error channel.
\<close>

theorem unchecked_decode_error_panics:
  assumes "index_opt (slice (buckets s)) (BucketID (GetChunk sr)) = Some bucket"
    and "AnalyzeValuesFromBuckets env (UpperBound bucket) (slice (indexColumns s)) = Inl err"
    and "slice (indexColumns s) \<noteq> []"
  shows "produceChunks env s (Some sr) = ([], Panicked IndexOutOfRange)"
proof -
  from assms(3) obtain column columns where "slice (indexColumns s) = column # columns"
    by (cases "slice (indexColumns s)") auto
  with assms(1,2) show ?thesis
    by (simp add: produceChunks_def resumeFromCheckpoint_def index_opt_def)
qed

theorem unchecked_decode_error_panics_witness:
  "index_opt (slice (buckets (exampleIterator 100 brokenBuckets)))
      (BucketID (GetChunk (exampleCheckpoint 0))) = Some (brokenBuckets ! 0)
   \<and> AnalyzeValuesFromBuckets (exampleEnv 10) (UpperBound (brokenBuckets ! 0))
        (slice (indexColumns (exampleIterator 100 brokenBuckets)))
      = Inl (QueryFailure ''analyze value (?) failed'')
   \<and> slice (indexColumns (exampleIterator 100 brokenBuckets)) \<noteq> []
   \<and> produceChunks (exampleEnv 10) (exampleIterator 100 brokenBuckets) (Some (exampleCheckpoint 0))
      = ([], Panicked IndexOutOfRange)"
  using unchecked_decode_error_panics [of "exampleIterator 100 brokenBuckets" "exampleCheckpoint 0"
      "brokenBuckets ! 0" "exampleEnv 10" "QueryFailure ''analyze value (?) failed''"]
  by (simp add: exampleIterator_def brokenBuckets_def newIterator_def slice_def exampleCheckpoint_def
      GetChunk_def index_opt_def exampleEnv_def exampleColumns_def)

subsection \<open>Next after the end\<close>

text \<open>
  Claim C5 (after \<^verbatim>\<open>Next\<close> has returned \<^verbatim>\<open>nil, nil\<close>, every further call returns
  \<^verbatim>\<open>nil, nil\<close> again). The code does not do this: the call that receives the \<^verbatim>\<open>nil\<close>
  batch closes \<^verbatim>\<open>chunksCh\<close>; the next call receives \<^verbatim>\<open>nil\<close> from the closed channel
  and closes it a second time, which panics.
\<close>

theorem next_after_completion_panics:
  assumes "Next p s = (Finished, s')" and "errCh s = None" and "queue (chunksCh s') = []"
  shows "Next q s' = (Crashed CloseOfClosedChannel, s')"
proof -
  have fin: "receiveBatch t msg ch = (Finished, s') \<Longrightarrow>
      s' = t\<lparr>chunks := None, chunksCh := ch\<lparr>closed := True\<rparr>\<rparr>"
    for t and msg :: "Range list option" and ch
    by (auto simp: receiveBatch_def takeChunk_def split: option.splits if_splits)
  from assms(1,2) obtain msg ch where "s' = s\<lparr>chunks := None, chunksCh := ch\<lparr>closed := True\<rparr>\<rparr>"
    by (auto simp: Next_def receiveFromChunksCh_def takeChunk_def
        split: if_splits option.splits list.splits dest: fin)
  with assms(2,3) show ?thesis
    by (simp add: Next_def receiveFromChunksCh_def receiveBatch_def slice_def)
qed

theorem next_after_completion_panics_witness:
  "fst (Next False (afterProduction (exampleEnv 0) (exampleIterator 100 smallBuckets) None)) = Finished
   \<and> fst (Next False (snd (Next False
        (afterProduction (exampleEnv 0) (exampleIterator 100 smallBuckets) None))))
     = Crashed CloseOfClosedChannel"
proof -
  let ?s = "afterProduction (exampleEnv 0) (exampleIterator 100 smallBuckets) None"
  have "\<forall>b \<in> set smallBuckets. Count b - 0 < 100"
    by (simp add: smallBuckets_def)
  then have prod: "produceChunks (exampleEnv 0) (exampleIterator 100 smallBuckets) None = ([], Completed)"
    by (simp add: produceChunks_def loopAndRest_def bucketLoop_all_below restChunk_def
        exampleIterator_def newIterator_def slice_def)
  have it: "chunks (exampleIterator 100 smallBuckets) = None"
    "nextChunk (exampleIterator 100 smallBuckets) = 0"
    "errCh (exampleIterator 100 smallBuckets) = None"
    by (simp_all add: exampleIterator_def newIterator_def)
  have first: "Next False ?s = (Finished, snd (Next False ?s))"
    by (simp add: afterProduction_def prod Next_def receiveFromChunksCh_def receiveBatch_def
        it slice_def)
  have "errCh ?s = None" "queue (chunksCh (snd (Next False ?s))) = []"
    by (simp_all add: afterProduction_def prod Next_def receiveFromChunksCh_def receiveBatch_def
        it slice_def)
  with first have "Next False (snd (Next False ?s)) = (Crashed CloseOfClosedChannel, snd (Next False ?s))"
    by (rule next_after_completion_panics)
  with first show ?thesis by (metis fst_conv)
qed

subsection \<open>Construction\<close>

text \<open>
  Claim C6. \<^verbatim>\<open>init\<close> scans the indexes in order. Entries that are \<^verbatim>\<open>nil\<close>, that do not
  match the checkpoint's index ID, or that have statistics but no usable column are passed
  over. After such a prefix: if nothing is left, construction fails with
  \<open>NotFound\<close> and no iterator is returned; if the next index matches but has no bucket
  statistics, construction fails with \<open>NotFound\<close> (later indexes are not tried); if it
  matches, has statistics and columns, it is adopted with its buckets and columns.
\<close>

theorem index_selection:
  assumes "GetBucketsInfo env = Inr bm"
    and "FindAllIndex env = skipped @ rest"
    and "\<forall>x \<in> set skipped. (case x of None \<Rightarrow> True | Some index \<Rightarrow>
           (\<exists>sr. startRange = Some sr \<and> IndexID sr \<noteq> IndexInfoID index)
           \<or> (bm (IndexName index) \<noteq> None \<and> GetColumnsFromIndex env index = []))"
  shows "(rest = [] \<longrightarrow>
            NewBucketIteratorWithCheckpoint env requested startRange
            = Inl (NotFound ''no index to split buckets''))
    \<and> (rest = Some index # others
          \<and> (\<forall>sr. startRange = Some sr \<longrightarrow> IndexID sr = IndexInfoID index)
          \<and> bm (IndexName index) = None \<longrightarrow>
            NewBucketIteratorWithCheckpoint env requested startRange
            = Inl (NotFound (''index '' @ IndexName index @ '' in buckets info'')))
    \<and> (rest = Some index # others
          \<and> (\<forall>sr. startRange = Some sr \<longrightarrow> IndexID sr = IndexInfoID index)
          \<and> bm (IndexName index) = Some bucket
          \<and> GetColumnsFromIndex env index \<noteq> [] \<longrightarrow>
            (\<exists>s. NewBucketIteratorWithCheckpoint env requested startRange = Inr s
                 \<and> buckets s = Some bucket
                 \<and> indexColumns s = Some (GetColumnsFromIndex env index)
                 \<and> indexID s = IndexInfoID index))"
proof -
  have sel: "selectIndex bm (GetColumnsFromIndex env) startRange (FindAllIndex env) s
      = selectIndex bm (GetColumnsFromIndex env) startRange rest s" for s
    unfolding assms(2) using assms(3) by (rule selectIndex_passed_over)
  have none: "rest = [] \<longrightarrow>
      NewBucketIteratorWithCheckpoint env requested startRange
      = Inl (NotFound ''no index to split buckets'')"
    by (simp add: NewBucketIteratorWithCheckpoint_def init_def assms(1) sel newIterator_def)
  have missing: "rest = Some index # others
      \<and> (\<forall>sr. startRange = Some sr \<longrightarrow> IndexID sr = IndexInfoID index)
      \<and> bm (IndexName index) = None \<longrightarrow>
        NewBucketIteratorWithCheckpoint env requested startRange
        = Inl (NotFound (''index '' @ IndexName index @ '' in buckets info''))"
    by (auto simp: NewBucketIteratorWithCheckpoint_def init_def assms(1) sel split: option.splits)
  have adopt: "rest = Some index # others
      \<and> (\<forall>sr. startRange = Some sr \<longrightarrow> IndexID sr = IndexInfoID index)
      \<and> bm (IndexName index) = Some bucket
      \<and> GetColumnsFromIndex env index \<noteq> [] \<longrightarrow>
        (\<exists>s. NewBucketIteratorWithCheckpoint env requested startRange = Inr s
             \<and> buckets s = Some bucket
             \<and> indexColumns s = Some (GetColumnsFromIndex env index)
             \<and> indexID s = IndexInfoID index)"
    by (auto simp: NewBucketIteratorWithCheckpoint_def init_def assms(1) sel split: option.splits)
  from none missing adopt show ?thesis by blast
qed

theorem index_selection_witness:
  "NewBucketIteratorWithCheckpoint
      ((exampleEnv 0)\<lparr>FindAllIndex := [None, Some \<lparr>IndexInfoID = 2, IndexName = ''other''\<rparr>,
                                        Some \<lparr>IndexInfoID = 1, IndexName = ''empty''\<rparr>]\<rparr>)
      100 (Some (exampleCheckpoint 0))
    = Inl (NotFound ''no index to split buckets'')
   \<and> NewBucketIteratorWithCheckpoint
      ((exampleEnv 0)\<lparr>FindAllIndex := [None, Some \<lparr>IndexInfoID = 1, IndexName = ''empty''\<rparr>,
                                        Some \<lparr>IndexInfoID = 1, IndexName = ''other''\<rparr>,
                                        Some \<lparr>IndexInfoID = 1, IndexName = ''PRIMARY''\<rparr>]\<rparr>)
      100 (Some (exampleCheckpoint 0))
    = Inl (NotFound ''index other in buckets info'')
   \<and> (\<exists>s. NewBucketIteratorWithCheckpoint
      ((exampleEnv 0)\<lparr>FindAllIndex := [None, Some \<lparr>IndexInfoID = 2, IndexName = ''other''\<rparr>,
                                        Some \<lparr>IndexInfoID = 1, IndexName = ''empty''\<rparr>,
                                        Some \<lparr>IndexInfoID = 1, IndexName = ''PRIMARY''\<rparr>,
                                        Some \<lparr>IndexInfoID = 1, IndexName = ''other''\<rparr>]\<rparr>)
      100 (Some (exampleCheckpoint 0)) = Inr s
      \<and> buckets s = Some threeBuckets \<and> indexColumns s = Some exampleColumns \<and> indexID s = 1)"
proof -
  let ?bm = "\<lambda>name. if name = ''PRIMARY'' \<or> name = ''empty'' then Some threeBuckets else None"
  let ?other2 = "Some \<lparr>IndexInfoID = 2, IndexName = ''other''\<rparr>"
  let ?other1 = "\<lparr>IndexInfoID = 1, IndexName = ''other''\<rparr>"
  let ?empty = "Some \<lparr>IndexInfoID = 1, IndexName = ''empty''\<rparr>"
  let ?primary = "\<lparr>IndexInfoID = 1, IndexName = ''PRIMARY''\<rparr>"
  have a: "NewBucketIteratorWithCheckpoint
      ((exampleEnv 0)\<lparr>FindAllIndex := [None, ?other2, ?empty]\<rparr>) 100 (Some (exampleCheckpoint 0))
    = Inl (NotFound ''no index to split buckets'')"
    using index_selection [where env = "(exampleEnv 0)\<lparr>FindAllIndex := [None, ?other2, ?empty]\<rparr>"
        and bm = ?bm and skipped = "[None, ?other2, ?empty]" and rest = "[]"
        and startRange = "Some (exampleCheckpoint 0)" and requested = 100]
    by (simp add: exampleEnv_def exampleCheckpoint_def)
  have b: "NewBucketIteratorWithCheckpoint
      ((exampleEnv 0)\<lparr>FindAllIndex := [None, ?empty, Some ?other1, Some ?primary]\<rparr>)
      100 (Some (exampleCheckpoint 0))
    = Inl (NotFound ''index other in buckets info'')"
    using index_selection [where env = "(exampleEnv 0)\<lparr>FindAllIndex := [None, ?empty, Some ?other1, Some ?primary]\<rparr>"
        and bm = ?bm and skipped = "[None, ?empty]" and rest = "[Some ?other1, Some ?primary]"
        and index = ?other1 and others = "[Some ?primary]"
        and startRange = "Some (exampleCheckpoint 0)" and requested = 100]
    by (simp add: exampleEnv_def exampleCheckpoint_def)
  have c: "\<exists>s. NewBucketIteratorWithCheckpoint
      ((exampleEnv 0)\<lparr>FindAllIndex := [None, ?other2, ?empty, Some ?primary, Some ?other1]\<rparr>)
      100 (Some (exampleCheckpoint 0)) = Inr s
      \<and> buckets s = Some threeBuckets \<and> indexColumns s = Some exampleColumns \<and> indexID s = 1"
    using index_selection [where env = "(exampleEnv 0)\<lparr>FindAllIndex := [None, ?other2, ?empty, Some ?primary, Some ?other1]\<rparr>"
        and bm = ?bm and skipped = "[None, ?other2, ?empty]" and rest = "[Some ?primary, Some ?other1]"
        and index = ?primary and others = "[Some ?other1]" and bucket = threeBuckets
        and startRange = "Some (exampleCheckpoint 0)" and requested = 100]
    by (simp add: exampleEnv_def exampleCheckpoint_def exampleColumns_def)
  from a b c show ?thesis by blast
qed

text \<open>
  Claim C2 (without a requested chunk size, the chunk size is
  \<open>max (totalRows / 10000) (2 * SplitThreshold)\<close>). The code compares the quotient with
  \<open>SplitThreshold\<close>, not with twice it: a quotient \<open>q\<close> below the threshold gives
  \<open>2 * SplitThreshold\<close>, any other quotient is kept, so for
  \<open>SplitThreshold \<le> q < 2 * SplitThreshold\<close> the result is \<open>q\<close> and not the maximum.
  Amended: where the \<open>Count\<close> fields add up to the last bucket's cumulative count
  \<open>totalRows\<close>, the chunk size is \<open>2 * SplitThreshold\<close> if
  \<open>totalRows / 10000 < SplitThreshold\<close> and \<open>totalRows / 10000\<close> otherwise; this is the
  maximum of the two unless \<open>SplitThreshold \<le> totalRows / 10000 < 2 * SplitThreshold\<close>.
\<close>

theorem default_chunk_size:
  assumes "init env s0 startRange = Inr s" and "chunkSize s0 \<le> 0"
    and "buckets s = Some bs" and "bs \<noteq> []"
    and "sum_list (map Count bs) = Count (last bs)"
  shows "chunkSize s =
           (if quo (Count (last bs)) 10000 < SplitThreshold env then 2 * SplitThreshold env
            else quo (Count (last bs)) 10000)
    \<and> (0 \<le> SplitThreshold env
        \<and> (quo (Count (last bs)) 10000 < SplitThreshold env
             \<or> 2 * SplitThreshold env \<le> quo (Count (last bs)) 10000)
        \<longrightarrow> chunkSize s = max (quo (Count (last bs)) 10000) (2 * SplitThreshold env))
    \<and> (0 \<le> Count (last bs) \<longrightarrow> quo (Count (last bs)) 10000 = Count (last bs) div 10000)"
proof -
  from assms(1) obtain bm s1 where bm: "GetBucketsInfo env = Inr bm"
    and s1: "selectIndex bm (GetColumnsFromIndex env) startRange (FindAllIndex env)
               (s0\<lparr>nextChunk := 0\<rparr>) = Inr s1"
    and found: "buckets s1 \<noteq> None" "indexColumns s1 \<noteq> None"
    by (auto simp: init_def split: sum.splits if_splits)
  from s1 have "chunkSize s1 = chunkSize s0"
    by (simp add: selectIndex_chunkSize)
  with assms(1,2) bm s1 found
  have s: "s = s1\<lparr>chunkSize := defaultChunkSize (SplitThreshold env) (slice (buckets s1))\<rparr>"
    by (auto simp: init_def)
  with assms(3) have "slice (buckets s1) = bs"
    by (simp add: slice_def)
  with s assms(5) have size: "chunkSize s =
      (if quo (Count (last bs)) 10000 < SplitThreshold env then 2 * SplitThreshold env
       else quo (Count (last bs)) 10000)"
    by (simp add: defaultChunkSize_def foldl_Count Let_def)
  have "0 \<le> Count (last bs) \<longrightarrow> quo (Count (last bs)) 10000 = Count (last bs) div 10000"
    by (simp add: quo_nonneg)
  with size show ?thesis by (auto simp: max_def)
qed

theorem default_chunk_size_counterexample:
  "map_sum id chunkSize (init (statsEnv (oneBucket 15000000)) (newIterator 0) None) = Inr 1500
   \<and> max (Count (last (oneBucket 15000000)) div 10000)
          (2 * SplitThreshold (statsEnv (oneBucket 15000000))) = 2000"
  by (simp add: init_def statsEnv_def exampleEnv_def oneBucket_def newIterator_def
      exampleColumns_def slice_def defaultChunkSize_def quo_def)

theorem default_chunk_size_witness:
  "map_sum id chunkSize (init (statsEnv (oneBucket 30000000)) (newIterator 0) None) = Inr 3000
   \<and> map_sum id buckets (init (statsEnv (oneBucket 30000000)) (newIterator 0) None)
       = Inr (Some (oneBucket 30000000))
   \<and> sum_list (map Count (oneBucket 30000000)) = Count (last (oneBucket 30000000))"
proof -
  let ?env = "statsEnv (oneBucket 30000000)"
  obtain s where s: "init ?env (newIterator 0) None = Inr s"
    and bs: "buckets s = Some (oneBucket 30000000)"
    by (simp add: init_def statsEnv_def exampleEnv_def newIterator_def exampleColumns_def
        oneBucket_def)
  have "chunkSize s = 3000"
    using default_chunk_size [OF s _ bs]
    by (simp add: newIterator_def oneBucket_def statsEnv_def exampleEnv_def quo_def)
  with s bs show ?thesis
    by (simp add: oneBucket_def)
qed

text \<open>The total itself is the sum of the \<open>Count\<close> fields (lines 132--134), which are
  cumulative: three buckets of 20 million rows each count as 120 million.\<close>

lemma cumulative_counts_are_summed:
  "defaultChunkSize 1000
     [\<lparr>Count = 20000000, LowerBound = ''(1)'', UpperBound = ''(2)''\<rparr>,
      \<lparr>Count = 40000000, LowerBound = ''(3)'', UpperBound = ''(4)''\<rparr>,
      \<lparr>Count = 60000000, LowerBound = ''(5)'', UpperBound = ''(6)''\<rparr>] = 12000"
  by (simp add: defaultChunkSize_def quo_def)

subsection \<open>The scenario of three buckets\<close>

text \<open>
  Claim C4 (cumulative counts 100, 250, 400 with chunk size 100 give exactly 5 chunks).
  The code sends a sixth chunk: after the three batches of 1, 2 and 2 chunks the pending
  lower bound is the third bucket's upper bound, and lines 246--253 send the range above
  it. Amended: with a decoder that yields one value per index column and a splitter that
  returns the requested number of ranges, the run sends 6 chunks with IDs 0 to 5 and
  bucket IDs 0, 1, 1, 2, 2, 3, and completes.
\<close>

theorem three_buckets_six_chunks:
  assumes "buckets s = Some bs" and "map Count bs = [100, 250, 400]" and "chunkSize s = 100"
    and "indexColumns s = Some columns" and "columns \<noteq> []"
    and dec: "\<forall>b \<in> set bs. \<exists>vs. AnalyzeValuesFromBuckets env (UpperBound b) columns = Inr vs
                \<and> length vs = length columns"
    and split: "\<forall>r n. \<exists>cs. splitRangeByRandom env r n = Inr cs \<and> length cs = nat (max n 1)"
  shows "map (\<lambda>r. (ID r, BucketID r)) (concat (fst (produceChunks env s None)))
           = [(0, 0), (1, 1), (2, 1), (3, 2), (4, 2), (5, 3)]
       \<and> snd (produceChunks env s None) = Completed"
proof -
  from assms(2) obtain b0 b1 b2 where bs: "bs = [b0, b1, b2]"
    and counts: "Count b0 = 100" "Count b1 = 250" "Count b2 = 400"
    by (auto simp: map_eq_Cons_conv)
  let ?st0 = "\<lparr>chunkRange = NewChunkRange, lowerValues = [], latestCount = 0, chunkID = 0\<rparr>"
  have cnt: "chunkCnt 100 100 = 1" "chunkCnt 150 100 = 2"
    by (simp_all add: chunkCnt_def quo_def)
  have dec': "\<exists>vs. AnalyzeValuesFromBuckets env (UpperBound (bs ! i)) columns = Inr vs
                \<and> length vs = length columns" if "i < 3" for i
    using dec that bs by (auto simp: less_Suc_eq numeral_3_eq_3)
  obtain cs0 uv0 where l0: "length cs0 = 1" "length uv0 = length columns"
    and step0: "bucketLoop env 100 bs columns 0 ?st0 =
        emit (fst (InitChunks cs0 0 0))
          (bucketLoop env 100 bs columns (Suc 0)
             \<lparr>chunkRange = NewChunkRange, lowerValues = uv0, latestCount = 100, chunkID = 1\<rparr>)"
    using bucketLoop_emit_step [of 0 bs 100 ?st0 env columns, OF _ _ _ dec' split]
    by (auto simp: bs counts cnt)
  obtain cs1 uv1 where l1: "length cs1 = 2" "length uv1 = length columns"
    and step1: "bucketLoop env 100 bs columns (Suc 0)
          \<lparr>chunkRange = NewChunkRange, lowerValues = uv0, latestCount = 100, chunkID = 1\<rparr> =
        emit (fst (InitChunks cs1 1 1))
          (bucketLoop env 100 bs columns (Suc (Suc 0))
             \<lparr>chunkRange = NewChunkRange, lowerValues = uv1, latestCount = 250, chunkID = 3\<rparr>)"
    using bucketLoop_emit_step [of "Suc 0" bs 100
        "\<lparr>chunkRange = NewChunkRange, lowerValues = uv0, latestCount = 100, chunkID = 1\<rparr>"
        env columns, OF _ _ _ dec' split] l0
    by (auto simp: bs counts cnt)
  obtain cs2 uv2 where l2: "length cs2 = 2" "length uv2 = length columns"
    and step2: "bucketLoop env 100 bs columns (Suc (Suc 0))
          \<lparr>chunkRange = NewChunkRange, lowerValues = uv1, latestCount = 250, chunkID = 3\<rparr> =
        emit (fst (InitChunks cs2 3 2))
          (bucketLoop env 100 bs columns (Suc (Suc (Suc 0)))
             \<lparr>chunkRange = NewChunkRange, lowerValues = uv2, latestCount = 400, chunkID = 5\<rparr>)"
    using bucketLoop_emit_step [of "Suc (Suc 0)" bs 100
        "\<lparr>chunkRange = NewChunkRange, lowerValues = uv1, latestCount = 250, chunkID = 3\<rparr>"
        env columns, OF _ _ _ dec' split] l1
    by (auto simp: bs counts cnt)
  let ?st3 = "\<lparr>chunkRange = NewChunkRange, lowerValues = uv2, latestCount = 400, chunkID = 5\<rparr>"
  have fin: "bucketLoop env 100 bs columns (Suc (Suc (Suc 0))) ?st3 = ([], Inr ?st3)"
    by (rule bucketLoop_done) (simp add: bs)
  from l2 assms(5) have "uv2 \<noteq> []" by auto
  moreover obtain r where "setLowers NewChunkRange columns 0 uv2 = Some r"
    using setLowers_Some [of 0 columns uv2 NewChunkRange] l2 by auto
  ultimately have rest: "restChunk bs columns ?st3 = ([fst (InitChunks [r] 5 3)], Completed)"
    by (simp add: restChunk_def bs)
  have loop: "bucketLoop env 100 bs columns 0 ?st0 =
      ([fst (InitChunks cs0 0 0), fst (InitChunks cs1 1 1), fst (InitChunks cs2 3 2)], Inr ?st3)"
    by (simp add: step0 step1 step2 fin emit_def)
  have run: "produceChunks env s None =
      ([fst (InitChunks cs0 0 0), fst (InitChunks cs1 1 1), fst (InitChunks cs2 3 2),
        fst (InitChunks [r] 5 3)], Completed)"
    by (simp add: produceChunks_def loopAndRest_def assms(1,3,4) slice_def loop rest)
  have upt: "[0..<2] = [0, Suc 0]"
    by (simp add: upt_rec)
  show ?thesis
    unfolding run
    by (simp add: InitChunks_tags l0 l1 l2 upt)
qed


theorem three_buckets_six_chunks_witness:
  "map Count threeBuckets = [100, 250, 400]
   \<and> chunkSize (exampleIterator 100 threeBuckets) = 100
   \<and> map (\<lambda>r. (ID r, BucketID r))
         (concat (fst (produceChunks (exampleEnv 0) (exampleIterator 100 threeBuckets) None)))
       = [(0, 0), (1, 1), (2, 1), (3, 2), (4, 2), (5, 3)]
   \<and> snd (produceChunks (exampleEnv 0) (exampleIterator 100 threeBuckets) None) = Completed"
  using three_buckets_six_chunks [of "exampleIterator 100 threeBuckets" threeBuckets
      exampleColumns "exampleEnv 0"]
  by (simp add: exampleIterator_def newIterator_def threeBuckets_def exampleColumns_def
      exampleEnv_def)

theorem five_chunks_counterexample:
  "fst (produceChunks (exampleEnv 0) (exampleIterator 100 threeBuckets) None)
     = [[\<lparr>ID = 0, Bounds = [\<lparr>Column = ''id'', Lower = [], Upper = ''(100)'',
                              HasLower = False, HasUpper = True\<rparr>], BucketID = 0\<rparr>],
        [\<lparr>ID = 1, Bounds = [\<lparr>Column = ''id'', Lower = ''(100)'', Upper = ''(250)'',
                              HasLower = True, HasUpper = True\<rparr>], BucketID = 1\<rparr>,
         \<lparr>ID = 2, Bounds = [\<lparr>Column = ''id'', Lower = ''(100)'', Upper = ''(250)'',
                              HasLower = True, HasUpper = True\<rparr>], BucketID = 1\<rparr>],
        [\<lparr>ID = 3, Bounds = [\<lparr>Column = ''id'', Lower = ''(250)'', Upper = ''(400)'',
                              HasLower = True, HasUpper = True\<rparr>], BucketID = 2\<rparr>,
         \<lparr>ID = 4, Bounds = [\<lparr>Column = ''id'', Lower = ''(250)'', Upper = ''(400)'',
                              HasLower = True, HasUpper = True\<rparr>], BucketID = 2\<rparr>],
        [\<lparr>ID = 5, Bounds = [\<lparr>Column = ''id'', Lower = ''(400)'', Upper = [],
                              HasLower = True, HasUpper = False\<rparr>], BucketID = 3\<rparr>]]
   \<and> length (concat (fst (produceChunks (exampleEnv 0) (exampleIterator 100 threeBuckets) None)))
       \<noteq> 5"
  by (simp add: produceChunks_def loopAndRest_def bucketLoop.simps restChunk_def
      exampleIterator_def newIterator_def threeBuckets_def exampleColumns_def exampleEnv_def
      slice_def index_opt_def Update_def NewChunkRange_def chunkCnt_def quo_def emit_def
      numeral_2_eq_2)

subsection \<open>Resuming from a checkpoint\<close>



text \<open>
  Claim C10. Both bucket lookups of the checkpoint block succeed exactly when
  \<open>0 \<le> BucketID\<close> and \<open>BucketID + 1 < length buckets\<close>; the block hands over to the
  loop, and a run with a checkpoint completes, only under that condition; and for a
  checkpoint on the last bucket the lookup at \<open>BucketID + 1\<close> is outside the list, so a
  run that gets that far panics.
\<close>

theorem checkpoint_bucket_lookups:
  "(index_opt bs (BucketID (GetChunk sr)) \<noteq> None
      \<and> index_opt bs (BucketID (GetChunk sr) + 1) \<noteq> None
    \<longleftrightarrow> 0 \<le> BucketID (GetChunk sr) \<and> BucketID (GetChunk sr) + 1 < int (length bs))
   \<and> (snd (resumeFromCheckpoint env csize bs columns sr) = Inr x \<longrightarrow>
        0 \<le> BucketID (GetChunk sr) \<and> BucketID (GetChunk sr) + 1 < int (length bs))
   \<and> (snd (produceChunks env s (Some sr)) = Completed \<longrightarrow>
        0 \<le> BucketID (GetChunk sr)
        \<and> BucketID (GetChunk sr) + 1 < int (length (slice (buckets s))))
   \<and> (BucketID (GetChunk sr) + 1 = int (length bs)
        \<and> index_opt bs (BucketID (GetChunk sr)) = Some bucket
        \<and> setUppers (checkpointLowers (GetChunk sr)) columns 0
             (case AnalyzeValuesFromBuckets env (UpperBound bucket) columns of
                Inl err \<Rightarrow> [] | Inr vs \<Rightarrow> vs) = Some r
        \<and> GetRowCount env r = Inr count
        \<and> (0 < count \<longrightarrow> csize \<noteq> 0 \<and> splitRangeByRandom env r (chunkCnt count csize) = Inr cs)
      \<longrightarrow> index_opt bs (BucketID (GetChunk sr) + 1) = None
          \<and> snd (resumeFromCheckpoint env csize bs columns sr) = Inl (Panicked IndexOutOfRange))"
proof -
  have range: "index_opt bs (BucketID (GetChunk sr)) \<noteq> None
      \<and> index_opt bs (BucketID (GetChunk sr) + 1) \<noteq> None
    \<longleftrightarrow> 0 \<le> BucketID (GetChunk sr) \<and> BucketID (GetChunk sr) + 1 < int (length bs)" for bs :: "Bucket list"
    by (auto simp: index_opt_def)
  have cont: "snd (resumeFromCheckpoint env csize bs columns sr) = Inr x \<longrightarrow>
        0 \<le> BucketID (GetChunk sr) \<and> BucketID (GetChunk sr) + 1 < int (length bs)"
    using resume_continues [of env csize bs columns sr x] range [of bs] by blast
  have compl: "snd (produceChunks env s (Some sr)) = Completed \<longrightarrow>
        0 \<le> BucketID (GetChunk sr)
        \<and> BucketID (GetChunk sr) + 1 < int (length (slice (buckets s)))"
  proof
    let ?res = "resumeFromCheckpoint env (chunkSize s) (slice (buckets s)) (slice (indexColumns s)) sr"
    assume compl: "snd (produceChunks env s (Some sr)) = Completed"
    obtain sent e where res: "?res = (sent, e)" by (cases ?res)
    with compl resume_never_completes [of env "chunkSize s" "slice (buckets s)" "slice (indexColumns s)" sr]
    obtain x where "snd ?res = Inr x"
      by (cases e) (auto simp: produceChunks_def)
    then show "0 \<le> BucketID (GetChunk sr)
        \<and> BucketID (GetChunk sr) + 1 < int (length (slice (buckets s)))"
      using resume_continues [of env "chunkSize s" "slice (buckets s)" "slice (indexColumns s)" sr x]
        range [of "slice (buckets s)"] by blast
  qed
  have last: "BucketID (GetChunk sr) + 1 = int (length bs)
        \<and> index_opt bs (BucketID (GetChunk sr)) = Some bucket
        \<and> setUppers (checkpointLowers (GetChunk sr)) columns 0
             (case AnalyzeValuesFromBuckets env (UpperBound bucket) columns of
                Inl err \<Rightarrow> [] | Inr vs \<Rightarrow> vs) = Some r
        \<and> GetRowCount env r = Inr count
        \<and> (0 < count \<longrightarrow> csize \<noteq> 0 \<and> splitRangeByRandom env r (chunkCnt count csize) = Inr cs)
      \<longrightarrow> index_opt bs (BucketID (GetChunk sr) + 1) = None
          \<and> snd (resumeFromCheckpoint env csize bs columns sr) = Inl (Panicked IndexOutOfRange)"
    by (auto simp: resumeFromCheckpoint_def seedLoop_def emit_def index_opt_def)
  from range [of bs] cont compl last show ?thesis by blast
qed


theorem checkpoint_bucket_lookups_witness:
  "index_opt threeBuckets (BucketID (GetChunk (exampleCheckpoint 2)) + 1) = None
   \<and> snd (resumeFromCheckpoint (exampleEnv 0) 100 threeBuckets exampleColumns (exampleCheckpoint 2))
       = Inl (Panicked IndexOutOfRange)
   \<and> snd (resumeFromCheckpoint (exampleEnv 0) 100 threeBuckets exampleColumns (exampleCheckpoint 0))
       = Inr (1, \<lparr>chunkRange = NewChunkRange, lowerValues = [''(101)''], latestCount = 100,
                  chunkID = 0\<rparr>)
   \<and> 0 \<le> BucketID (GetChunk (exampleCheckpoint 0))
   \<and> BucketID (GetChunk (exampleCheckpoint 0)) + 1 < int (length threeBuckets)"
proof -
  have a: "index_opt threeBuckets (BucketID (GetChunk (exampleCheckpoint 2)) + 1) = None
   \<and> snd (resumeFromCheckpoint (exampleEnv 0) 100 threeBuckets exampleColumns (exampleCheckpoint 2))
       = Inl (Panicked IndexOutOfRange)"
    using checkpoint_bucket_lookups [where bs = threeBuckets and sr = "exampleCheckpoint 2"
        and bucket = "threeBuckets ! 2" and columns = exampleColumns and env = "exampleEnv 0"
        and r = "NewChunkRange\<lparr>Bounds := [\<lparr>Column = ''id'', Lower = ''(50)'', Upper = ''(400)'',
                               HasLower = True, HasUpper = True\<rparr>]\<rparr>"
        and count = 0 and csize = 100]
    by (simp add: threeBuckets_def exampleCheckpoint_def GetChunk_def index_opt_def
        exampleColumns_def exampleEnv_def checkpointLowers_def Update_def NewChunkRange_def)
  have b: "snd (resumeFromCheckpoint (exampleEnv 0) 100 threeBuckets exampleColumns (exampleCheckpoint 0))
       = Inr (1, \<lparr>chunkRange = NewChunkRange, lowerValues = [''(101)''], latestCount = 100,
                  chunkID = 0\<rparr>)"
    by (simp add: resumeFromCheckpoint_def seedLoop_def threeBuckets_def exampleCheckpoint_def
        GetChunk_def index_opt_def exampleColumns_def exampleEnv_def checkpointLowers_def Update_def
        NewChunkRange_def)
  have c: "0 \<le> BucketID (GetChunk (exampleCheckpoint 0))
   \<and> BucketID (GetChunk (exampleCheckpoint 0)) + 1 < int (length threeBuckets)"
    using checkpoint_bucket_lookups [where bs = threeBuckets and sr = "exampleCheckpoint 0"
        and columns = exampleColumns and env = "exampleEnv 0" and csize = 100
        and x = "(1, \<lparr>chunkRange = NewChunkRange, lowerValues = [''(101)''], latestCount = 100,
                  chunkID = 0\<rparr>)"] b
    by blast
  from a b c show ?thesis by blast
qed

subsection \<open>The range after the last bucket\<close>




end
